theory Spec2Isabelle
  imports Main
begin

section \<open>The changelog check of the CI workflow\<close>

text \<open>
  The repository's only program is \<^verbatim>\<open>.forgejo/workflows/check-changelog.py\<close>: a script
  that reads CI variables from the process environment, asks \<^verbatim>\<open>git diff-tree\<close> for the
  files changed in a revision range, and exits with status 0 or 1. This theory embeds the
  script as a function of the world it runs in (the environment and the answer of the
  child process) and returns what an operator can observe: the ordered trace of
  environment reads, spawned commands and printed lines, and the way the interpreter stops.
\<close>

subsection \<open>Python values\<close>

text \<open>
  A Python \<^verbatim>\<open>str\<close> is a sequence of Unicode code points, a \<^verbatim>\<open>bytes\<close> object a
  sequence of octets. The values of \<^verbatim>\<open>os.environ\<close> and everything printed are
  \<^verbatim>\<open>str\<close>; the captured output streams of the child process are \<^verbatim>\<open>bytes\<close>.
\<close>

type_synonym str = "nat list"

type_synonym bytes = "char list"

definition lit :: "string \<Rightarrow> str" where
  "lit s = map of_char s"

subsection \<open>The fragment of \<^verbatim>\<open>re\<close> the script uses\<close>

text \<open>
  Both patterns of the script are sequences of single-character items, each item a
  character class with one of the quantifiers none, \<^verbatim>\<open>?\<close>, \<^verbatim>\<open>*\<close> and
  \<^verbatim>\<open>+\<close>. \<open>match_here\<close> is the backtracking matcher at one position (greedy
  alternative first, as in the engine); \<open>re_search\<close> tries every position from left to
  right and tells whether \<^verbatim>\<open>re.search(...)\<close> is not \<^verbatim>\<open>None\<close>.
\<close>

datatype quant = Once | Optional | Many | Many1

type_synonym 'a pattern = "(('a \<Rightarrow> bool) \<times> quant) list"

fun match_here :: "'a pattern \<Rightarrow> 'a list \<Rightarrow> bool" where
  "match_here [] s = True"
| "match_here ((p, Once) # r) [] = False"
| "match_here ((p, Once) # r) (c # t) = (p c \<and> match_here r t)"
| "match_here ((p, Optional) # r) [] = match_here r []"
| "match_here ((p, Optional) # r) (c # t) =
     ((p c \<and> match_here r t) \<or> match_here r (c # t))"
| "match_here ((p, Many) # r) [] = match_here r []"
| "match_here ((p, Many) # r) (c # t) =
     ((p c \<and> match_here ((p, Many) # r) t) \<or> match_here r (c # t))"
| "match_here ((p, Many1) # r) [] = False"
| "match_here ((p, Many1) # r) (c # t) = (p c \<and> match_here ((p, Many) # r) t)"

fun re_search :: "'a pattern \<Rightarrow> 'a list \<Rightarrow> bool" where
  "re_search pat [] = match_here pat []"
| "re_search pat (c # t) = (match_here pat (c # t) \<or> re_search pat t)"

definition literal :: "('a \<Rightarrow> 'a \<Rightarrow> bool) \<Rightarrow> 'a list \<Rightarrow> 'a pattern" where
  "literal eq ls = map (\<lambda>l. (eq l, Once)) ls"





subsection \<open>Character classes under \<^verbatim>\<open>re.I\<close>\<close>

text \<open>
  For a \<^verbatim>\<open>str\<close> pattern, \<^verbatim>\<open>re.I\<close> folds case over Unicode. Of the letters a to z,
  three have a partner beyond ASCII: the long s (U+017F) matches \<^verbatim>\<open>s\<close>, the Kelvin
  sign (U+212A) matches \<^verbatim>\<open>k\<close>, the dotted capital I (U+0130) and the dotless small i
  (U+0131) match \<^verbatim>\<open>i\<close>. \<open>uni_ignorecase l c\<close> tells whether the pattern letter
  \<open>l\<close>, a lower-case ASCII letter, matches the code point \<open>c\<close>. The dot matches every
  code point but the line feed.
\<close>

definition uni_ignorecase :: "nat \<Rightarrow> nat \<Rightarrow> bool" where
  "uni_ignorecase l c \<longleftrightarrow>
     c = l \<or> c + 32 = l \<or> (l = 0x73 \<and> c = 0x17F) \<or> (l = 0x6B \<and> c = 0x212A) \<or>
     (l = 0x69 \<and> (c = 0x130 \<or> c = 0x131))"

definition dot :: "nat \<Rightarrow> bool" where
  "dot c \<longleftrightarrow> c \<noteq> 10"

text \<open>
  For a \<^verbatim>\<open>bytes\<close> pattern, \<^verbatim>\<open>re.I\<close> folds the ASCII letters only: the engine
  lowers the pattern's letters when it compiles and each input octet when it matches.
  \<^verbatim>\<open>\s\<close> is the six ASCII whitespace octets.
\<close>

definition ascii_tolower :: "char \<Rightarrow> char" where
  "ascii_tolower b =
     (if 65 \<le> (of_char b :: nat) \<and> (of_char b :: nat) \<le> 90
      then char_of (of_char b + 32 :: nat) else b)"

definition ascii_ignorecase :: "char \<Rightarrow> char \<Rightarrow> bool" where
  "ascii_ignorecase l b \<longleftrightarrow> ascii_tolower b = ascii_tolower l"

definition in_class_ignorecase :: "char list \<Rightarrow> char \<Rightarrow> bool" where
  "in_class_ignorecase cs b \<longleftrightarrow> ascii_tolower b \<in> set (map ascii_tolower cs)"

definition isspace :: "char \<Rightarrow> bool" where
  "isspace b \<longleftrightarrow> (of_char b :: nat) \<in> {9, 10, 11, 12, 13, 32}"

definition nonspace :: "char \<Rightarrow> bool" where
  "nonspace b \<longleftrightarrow> \<not> isspace b"

text \<open>
  Line 13: \<^verbatim>\<open>re.search(r'skip.?changelog', ..., flags=re.I)\<close>; line 35:
  \<^verbatim>\<open>re.search(rb'[AM]\s+\S*changelog', diff.stdout, flags=re.I)\<close>.
\<close>

definition skip_re :: "nat pattern" where
  "skip_re =
     literal uni_ignorecase (lit ''skip'') @ [(dot, Optional)] @
     literal uni_ignorecase (lit ''changelog'')"

definition changelog_re :: "char pattern" where
  "changelog_re =
     [(in_class_ignorecase ''AM'', Once), (isspace, Many1), (nonspace, Many)] @
     literal ascii_ignorecase ''changelog''"

subsection \<open>Formatting \<^verbatim>\<open>bytes\<close> in an f-string\<close>

text \<open>
  \<^verbatim>\<open>f'{diff.stderr}'\<close> formats a \<^verbatim>\<open>bytes\<close> object, which gives its
  \<^verbatim>\<open>repr\<close>: the letter b, a quote, the octets with the quote, the backslash and the
  non-printable octets escaped, and the quote again. The quote is the apostrophe, or the
  double quote when the octets hold an apostrophe and no double quote.
\<close>

definition hexdigit :: "nat \<Rightarrow> nat" where
  "hexdigit d = (if d < 10 then 48 + d else 87 + d)"

definition repr_byte :: "nat \<Rightarrow> char \<Rightarrow> str" where
  "repr_byte quote b =
     (let c = of_char b in
      if c = quote \<or> c = 92 then [92, c]
      else if c = 9 then [92, 116]
      else if c = 10 then [92, 110]
      else if c = 13 then [92, 114]
      else if c < 32 \<or> 127 \<le> c then [92, 120, hexdigit (c div 16), hexdigit (c mod 16)]
      else [c])"

definition bytes_repr :: "bytes \<Rightarrow> str" where
  "bytes_repr bs =
     (let quote = (if CHR 0x27 \<in> set bs \<and> CHR 0x22 \<notin> set bs then 34 else 39)
      in [98, quote] @ concat (map (repr_byte quote) bs) @ [quote])"

text \<open>
  Reading such a literal back: \<open>bytes_unrepr\<close> parses the text of a bytes literal with
  the escapes above and gives the octets it denotes. It is the inverse of
  \<open>bytes_repr\<close> (proved below), so a printed literal tells its reader the octets
  exactly.
\<close>

definition hexvalue :: "nat \<Rightarrow> nat" where
  "hexvalue h = (if h < 58 then h - 48 else h - 87)"

fun unrepr_body :: "nat \<Rightarrow> str \<Rightarrow> bytes option" where
  "unrepr_body quote [] = None"
| "unrepr_body quote (c # t) =
     (if c = quote then (if t = [] then Some [] else None)
      else if c = 92 then
        (case t of
           [] \<Rightarrow> None
         | e # t' \<Rightarrow>
             if e = 116 then map_option ((#) (CHR 0x09)) (unrepr_body quote t')
             else if e = 110 then map_option ((#) (CHR 0x0A)) (unrepr_body quote t')
             else if e = 114 then map_option ((#) (CHR 0x0D)) (unrepr_body quote t')
             else if e = 120 then
               (case t' of
                  h1 # h2 # t'' \<Rightarrow>
                    map_option ((#) (char_of (16 * hexvalue h1 + hexvalue h2)))
                      (unrepr_body quote t'')
                | _ \<Rightarrow> None)
             else map_option ((#) (char_of e)) (unrepr_body quote t'))
      else map_option ((#) (char_of c)) (unrepr_body quote t))"

definition bytes_unrepr :: "str \<Rightarrow> bytes option" where
  "bytes_unrepr s =
     (case s of
        b # quote # t \<Rightarrow>
          if b = 98 \<and> (quote = 39 \<or> quote = 34) then unrepr_body quote t else None
      | _ \<Rightarrow> None)"

subsection \<open>The world and the effects of the script\<close>

text \<open>
  The world is what the script reads: \<^verbatim>\<open>os.environ\<close>, a partial map from names to
  values, and the answer of \<^verbatim>\<open>subprocess.run(argv, capture_output=True)\<close>: nothing
  when the command cannot be started (the call raises \<^verbatim>\<open>OSError\<close>), or the completed
  process with its return code and its two captured streams. The call passes no
  \<^verbatim>\<open>check=True\<close>, so a return code other than 0 raises nothing.

  A computation yields the events it caused, in order, and either a value or the reason
  the interpreter stops: \<^verbatim>\<open>sys.exit(n)\<close> or an exception nobody catches.
  \<^verbatim>\<open>os.environ[name]\<close> raises \<^verbatim>\<open>KeyError\<close> when the variable is not set.
\<close>

record completed_process =
  returncode :: int
  stdout :: bytes
  stderr :: bytes

datatype exn = KeyError string | OSError | UnicodeEncodeError

record world =
  environ :: "string \<rightharpoonup> str"
  subprocess_run :: "str list \<Rightarrow> completed_process option"

datatype stop = SysExit int | Uncaught exn

datatype event = Getenv string | Run "str list" | Print str

type_synonym 'a io = "(stop + 'a) \<times> event list"

definition io_return :: "'a \<Rightarrow> 'a io" where
  "io_return x = (Inr x, [])"

definition io_bind :: "'a io \<Rightarrow> ('a \<Rightarrow> 'b io) \<Rightarrow> 'b io" where
  "io_bind m f =
     (case m of
        (Inl e, tr) \<Rightarrow> (Inl e, tr)
      | (Inr x, tr) \<Rightarrow> (case f x of (r, tr') \<Rightarrow> (r, tr @ tr')))"

definition os_environ :: "world \<Rightarrow> string \<Rightarrow> str io" where
  "os_environ w name =
     (case environ w name of
        None \<Rightarrow> (Inl (Uncaught (KeyError name)), [Getenv name])
      | Some v \<Rightarrow> (Inr v, [Getenv name]))"

definition run_subprocess :: "world \<Rightarrow> str list \<Rightarrow> completed_process io" where
  "run_subprocess w argv =
     (case subprocess_run w argv of
        None \<Rightarrow> (Inl (Uncaught OSError), [Run argv])
      | Some cp \<Rightarrow> (Inr cp, [Run argv]))"

text \<open>
  \<^verbatim>\<open>print\<close> writes to \<^verbatim>\<open>sys.stdout\<close>, a text stream that encodes what it is given
  before it takes it. The interpreter chooses the encoding when it starts, from its
  environment (\<^verbatim>\<open>PYTHONIOENCODING\<close>, \<^verbatim>\<open>PYTHONUTF8\<close>, the locale variables); an
  \<open>encoder\<close> is that choice: for an environment, the code points beyond ASCII that
  standard output can encode. The ASCII code points are taken to be encodable, as they are
  in the encodings a locale selects. A text with a code point the stream cannot encode
  makes \<^verbatim>\<open>print\<close> raise \<^verbatim>\<open>UnicodeEncodeError\<close> before any of it is written;
  otherwise the text and a line feed go to standard output.
\<close>

type_synonym encoder = "(string \<rightharpoonup> str) \<Rightarrow> nat \<Rightarrow> bool"

definition encodable :: "encoder \<Rightarrow> world \<Rightarrow> str \<Rightarrow> bool" where
  "encodable enc w s \<longleftrightarrow> (\<forall>c\<in>set s. c < 128 \<or> enc (environ w) c)"

definition print :: "encoder \<Rightarrow> world \<Rightarrow> str \<Rightarrow> unit io" where
  "print enc w s =
     (if encodable enc w s then (Inr (), [Print s])
      else (Inl (Uncaught UnicodeEncodeError), []))"

definition sys_exit :: "int \<Rightarrow> 'a io" where
  "sys_exit n = (Inl (SysExit n), [])"

subsection \<open>The script\<close>

text \<open>
  Lines 17 to 21, the choice of the revision range. The two \<^verbatim>\<open>if\<close> statements follow
  each other (the second is no \<^verbatim>\<open>elif\<close>), \<^verbatim>\<open>and\<close> evaluates its right operand only
  when the left one is true, and the pipeline source is read once by each statement.
\<close>

definition select_treeish :: "world \<Rightarrow> str io" where
  "select_treeish w =
     io_bind (os_environ w ''CI_PIPELINE_SOURCE'') (\<lambda>source.
     io_bind (if source = lit ''push''
              then io_bind (os_environ w ''CI_COMMIT_REF_NAME'')
                     (\<lambda>ref_name. io_return (ref_name = lit ''main''))
              else io_return False) (\<lambda>push_to_main.
     io_bind (if push_to_main
              then io_bind (os_environ w ''CI_COMMIT_BEFORE_SHA'')
                     (\<lambda>sha. io_return (sha @ lit ''..''))
              else io_return (lit ''main..'')) (\<lambda>treeish.
     io_bind (os_environ w ''CI_PIPELINE_SOURCE'') (\<lambda>source'.
     if source' = lit ''merge_request_event''
     then io_bind (os_environ w ''CI_MERGE_REQUEST_DIFF_BASE_SHA'')
            (\<lambda>sha. io_return (sha @ lit ''..''))
     else io_return treeish))))"

definition diff_tree_argv :: "str \<Rightarrow> str list" where
  "diff_tree_argv treeish =
     [lit ''git'', lit ''diff-tree'', lit ''--no-commit-id'', lit ''-r'', treeish, lit ''--'']"

definition skipped_message :: str where
  "skipped_message = lit ''Changelog skipped.''"

definition error_message :: "bytes \<Rightarrow> str" where
  "error_message err = lit ''An error occured: '' @ bytes_repr err"

definition files_message :: "str \<Rightarrow> bytes \<Rightarrow> str" where
  "files_message treeish out = lit ''Files in '' @ treeish @ lit '':\<newline>'' @ bytes_repr out"

definition please_update_message :: str where
  \<open>please_update_message =
     lit ''Please update the Changelog. Use "skip-changelog" in the commit message to skip this check.''\<close>

definition updated_message :: str where
  "updated_message = lit ''Changelog has been updated as expected.''"

text \<open>
  Lines 11 to 42, the body of the script, run by an interpreter whose choice of the
  encoding of standard output is \<open>enc\<close>.
\<close>

definition main :: "encoder \<Rightarrow> world \<Rightarrow> unit io" where
  "main enc w =
     io_bind (os_environ w ''CI_COMMIT_MESSAGE'') (\<lambda>message.
     if re_search skip_re message
     then io_bind (print enc w skipped_message) (\<lambda>_. sys_exit 0)
     else
     io_bind (select_treeish w) (\<lambda>treeish.
     io_bind (run_subprocess w (diff_tree_argv treeish)) (\<lambda>diff.
     io_bind (if stderr diff \<noteq> []
              then io_bind (print enc w (error_message (stderr diff))) (\<lambda>_. sys_exit 1)
              else io_return ()) (\<lambda>_.
     io_bind (print enc w (files_message treeish (stdout diff))) (\<lambda>_.
     if \<not> re_search changelog_re (stdout diff)
     then io_bind (print enc w please_update_message) (\<lambda>_. sys_exit 1)
     else print enc w updated_message)))))"

text \<open>
  What the operator sees of a run: the exit status of the interpreter (0 when the script
  runs to its end, the argument of \<^verbatim>\<open>sys.exit\<close>, 1 after an uncaught exception), the
  trace, and from it the lines printed and the text on standard output (\<^verbatim>\<open>print\<close>
  ends each line with a line feed).
\<close>

definition exit_status :: "stop + unit \<Rightarrow> int" where
  "exit_status r = (case r of Inr _ \<Rightarrow> 0 | Inl (SysExit n) \<Rightarrow> n | Inl (Uncaught _) \<Rightarrow> 1)"

fun printed :: "event list \<Rightarrow> str list" where
  "printed [] = []"
| "printed (Print s # tr) = s # printed tr"
| "printed (e # tr) = printed tr"

fun commands :: "event list \<Rightarrow> str list list" where
  "commands [] = []"
| "commands (Run argv # tr) = argv # commands tr"
| "commands (e # tr) = commands tr"

definition stdout_text :: "event list \<Rightarrow> str" where
  "stdout_text tr = concat (map (\<lambda>s. s @ [10]) (printed tr))"

text \<open>The five variables the script may read.\<close>

definition ci_variables :: "string list" where
  "ci_variables =
     [''CI_COMMIT_MESSAGE'', ''CI_PIPELINE_SOURCE'', ''CI_COMMIT_REF_NAME'',
      ''CI_COMMIT_BEFORE_SHA'', ''CI_MERGE_REQUEST_DIFF_BASE_SHA'']"

subsection \<open>The two patterns of the script, in words\<close>



subsection \<open>The patterns as the specification words them\<close>








subsection \<open>Concrete runs\<close>

text \<open>
  Worlds for the scenarios of the specification and for the runs that separate the script
  from it. A pipeline sets the variables of its own trigger only: a push has no
  merge-request diff base. The child process answers every command line with the same
  completed process. \<open>sample_encoder\<close> is an interpreter in a UTF-8 locale that honours
  \<^verbatim>\<open>PYTHONIOENCODING=ascii\<close>: with it nothing beyond ASCII can be encoded, without it
  every code point but the surrogates.
\<close>

definition sample_encoder :: encoder where
  "sample_encoder env c \<longleftrightarrow>
     env ''PYTHONIOENCODING'' \<noteq> Some (lit ''ascii'') \<and>
     (c < 0xD800 \<or> (0xDFFF < c \<and> c < 0x110000))"

definition world_of :: "(string \<times> string) list \<Rightarrow> completed_process \<Rightarrow> world" where
  "world_of vars diff =
     \<lparr>environ = map_of (map (\<lambda>(name, v). (name, lit v)) vars),
      subprocess_run = (\<lambda>argv. Some diff)\<rparr>"

definition push_to_main :: "string \<Rightarrow> (string \<times> string) list" where
  "push_to_main message =
     [(''CI_COMMIT_MESSAGE'', message), (''CI_PIPELINE_SOURCE'', ''push''),
      (''CI_COMMIT_REF_NAME'', ''main''), (''CI_COMMIT_BEFORE_SHA'', ''1f0c3e7'')]"

definition merge_request :: "string \<Rightarrow> (string \<times> string) list" where
  "merge_request message =
     [(''CI_COMMIT_MESSAGE'', message), (''CI_PIPELINE_SOURCE'', ''merge_request_event''),
      (''CI_COMMIT_REF_NAME'', ''fix-parser''),
      (''CI_MERGE_REQUEST_DIFF_BASE_SHA'', ''9a8b7c6'')]"

definition scheduled :: "string \<Rightarrow> (string \<times> string) list" where
  "scheduled message =
     [(''CI_COMMIT_MESSAGE'', message), (''CI_PIPELINE_SOURCE'', ''schedule'')]"

definition raw_line :: "string \<Rightarrow> string \<Rightarrow> bytes" where
  "raw_line status path =
     '':100644 100644 5716ca5 1910281 '' @ status @ [CHR 0x09] @ path @ [CHR 0x0A]"

definition diff_changelog :: completed_process where
  "diff_changelog =
     \<lparr>returncode = 0, stdout = raw_line ''M'' ''docs/CHANGELOG.md'', stderr = []\<rparr>"

definition diff_source_only :: completed_process where
  "diff_source_only =
     \<lparr>returncode = 0, stdout = raw_line ''M'' ''src/main.py'', stderr = []\<rparr>"


definition diff_bad_range :: completed_process where
  "diff_bad_range =
     \<lparr>returncode = 128, stdout = raw_line ''M'' ''docs/CHANGELOG.md'',
      stderr = ''fatal: bad range''\<rparr>"

definition diff_bad_revision :: completed_process where
  "diff_bad_revision =
     \<lparr>returncode = 128, stdout = raw_line ''A'' ''CHANGELOG.md'',
      stderr = ''fatal: bad revision'' @ [CHR 0x0A]\<rparr>"

definition scenario_A :: world where
  "scenario_A = world_of (push_to_main ''fix bug'') diff_changelog"


definition scenario_C :: world where
  "scenario_C = world_of [(''CI_COMMIT_MESSAGE'', ''fix bug [skip-changelog]'')] diff_source_only"

definition scenario_D :: world where
  "scenario_D = world_of (merge_request ''fix bug'') diff_bad_range"



definition bad_revision_run :: world where
  "bad_revision_run = world_of (scheduled ''fix bug'') diff_bad_revision"



definition push_without_before_sha :: world where
  "push_without_before_sha =
     world_of [(''CI_COMMIT_MESSAGE'', ''fix bug''), (''CI_PIPELINE_SOURCE'', ''push''),
               (''CI_COMMIT_REF_NAME'', ''main'')] diff_changelog"

definition diff_status_first :: completed_process where
  "diff_status_first =
     \<lparr>returncode = 0, stdout = ''M'' @ [CHR 0x09] @ ''CHANGELOG.md'' @ [CHR 0x0A],
      stderr = []\<rparr>"




definition scenario_A_elsewhere :: world where
  "scenario_A_elsewhere =
     world_of (push_to_main ''fix bug'' @ [(''HOME'', ''/root''), (''CI_JOB_ID'', ''4711'')])
       diff_changelog"

section \<open>The matcher finds exactly the words of the pattern\<close>














section \<open>The patterns of the script\<close>















section \<open>The runs of the script\<close>

lemma push_not_merge_request: "lit ''push'' \<noteq> lit ''merge_request_event''"
  by (simp add: lit_def)

lemma select_treeish_eq:
  "select_treeish w =
     (case environ w ''CI_PIPELINE_SOURCE'' of
        None \<Rightarrow> (Inl (Uncaught (KeyError ''CI_PIPELINE_SOURCE'')), [Getenv ''CI_PIPELINE_SOURCE''])
      | Some source \<Rightarrow>
          if source = lit ''push'' then
            (case environ w ''CI_COMMIT_REF_NAME'' of
               None \<Rightarrow> (Inl (Uncaught (KeyError ''CI_COMMIT_REF_NAME'')),
                         [Getenv ''CI_PIPELINE_SOURCE'', Getenv ''CI_COMMIT_REF_NAME''])
             | Some ref_name \<Rightarrow>
                 if ref_name = lit ''main'' then
                   (case environ w ''CI_COMMIT_BEFORE_SHA'' of
                      None \<Rightarrow> (Inl (Uncaught (KeyError ''CI_COMMIT_BEFORE_SHA'')),
                                [Getenv ''CI_PIPELINE_SOURCE'', Getenv ''CI_COMMIT_REF_NAME'',
                                 Getenv ''CI_COMMIT_BEFORE_SHA''])
                    | Some sha \<Rightarrow> (Inr (sha @ lit ''..''),
                                   [Getenv ''CI_PIPELINE_SOURCE'', Getenv ''CI_COMMIT_REF_NAME'',
                                    Getenv ''CI_COMMIT_BEFORE_SHA'', Getenv ''CI_PIPELINE_SOURCE'']))
                 else (Inr (lit ''main..''),
                       [Getenv ''CI_PIPELINE_SOURCE'', Getenv ''CI_COMMIT_REF_NAME'',
                        Getenv ''CI_PIPELINE_SOURCE'']))
          else if source = lit ''merge_request_event'' then
            (case environ w ''CI_MERGE_REQUEST_DIFF_BASE_SHA'' of
               None \<Rightarrow> (Inl (Uncaught (KeyError ''CI_MERGE_REQUEST_DIFF_BASE_SHA'')),
                         [Getenv ''CI_PIPELINE_SOURCE'', Getenv ''CI_PIPELINE_SOURCE'',
                          Getenv ''CI_MERGE_REQUEST_DIFF_BASE_SHA''])
             | Some sha \<Rightarrow> (Inr (sha @ lit ''..''),
                            [Getenv ''CI_PIPELINE_SOURCE'', Getenv ''CI_PIPELINE_SOURCE'',
                             Getenv ''CI_MERGE_REQUEST_DIFF_BASE_SHA'']))
          else (Inr (lit ''main..''), [Getenv ''CI_PIPELINE_SOURCE'', Getenv ''CI_PIPELINE_SOURCE'']))"
  unfolding select_treeish_def
  by (simp add: os_environ_def io_bind_def io_return_def push_not_merge_request
      push_not_merge_request [symmetric]
      split: option.split)

lemma select_treeish_quiet:
  "commands (snd (select_treeish w)) = [] \<and> printed (snd (select_treeish w)) = []"
  unfolding select_treeish_eq by (simp split: option.split)

lemma of_char_less_256: "(of_char b :: nat) < 256"
proof -
  have "(of_char b :: nat) = of_char b mod 256" by simp
  also have "\<dots> < 256" by (rule mod_less_divisor) simp
  finally show ?thesis .
qed

lemma hexdigit_ascii: "d < 16 \<Longrightarrow> hexdigit d < 128"
  by (simp add: hexdigit_def)

lemma repr_byte_ascii:
  assumes "c \<in> set (repr_byte quote b)" and "quote < 128"
  shows "c < 128"
proof -
  have "of_char b div 16 < (16::nat)" "of_char b mod 16 < (16::nat)"
    using of_char_less_256 [of b] by arith+
  then have "hexdigit (of_char b div 16) < 128" "hexdigit (of_char b mod 16) < 128"
    by (simp_all add: hexdigit_ascii)
  then show ?thesis
    using assms by (auto simp: repr_byte_def Let_def split: if_splits)
qed

lemma bytes_repr_ascii: "c \<in> set (bytes_repr bs) \<Longrightarrow> c < 128"
  by (auto simp: bytes_repr_def Let_def dest: repr_byte_ascii split: if_splits)

lemma encodable_append:
  "encodable enc w (a @ b) \<longleftrightarrow> encodable enc w a \<and> encodable enc w b"
  by (auto simp: encodable_def)

lemma encodable_ascii: "(\<And>c. c \<in> set s \<Longrightarrow> c < 128) \<Longrightarrow> encodable enc w s"
  by (auto simp: encodable_def)

lemma encodable_bytes_repr: "encodable enc w (bytes_repr bs)"
  by (rule encodable_ascii) (rule bytes_repr_ascii)

lemma encodable_skipped_message: "encodable enc w skipped_message"
  by (simp add: encodable_def skipped_message_def lit_def)

lemma encodable_updated_message: "encodable enc w updated_message"
  by (simp add: encodable_def updated_message_def lit_def)

lemma encodable_please_update_message: "encodable enc w please_update_message"
  by (simp add: encodable_def please_update_message_def lit_def)

lemma encodable_error_message: "encodable enc w (error_message err)"
  unfolding error_message_def encodable_append
  by (simp add: encodable_bytes_repr) (simp add: encodable_def lit_def)

lemma encodable_files_message:
  "encodable enc w (files_message treeish out) \<longleftrightarrow> encodable enc w treeish"
proof -
  have "encodable enc w (lit ''Files in '')" "encodable enc w (lit '':\<newline>'')"
    by (simp_all add: encodable_def lit_def)
  then show ?thesis
    unfolding files_message_def encodable_append by (simp add: encodable_bytes_repr)
qed

lemma main_eq:
  "main enc w =
     (case environ w ''CI_COMMIT_MESSAGE'' of
        None \<Rightarrow> (Inl (Uncaught (KeyError ''CI_COMMIT_MESSAGE'')), [Getenv ''CI_COMMIT_MESSAGE''])
      | Some message \<Rightarrow>
          if re_search skip_re message
          then (Inl (SysExit 0), [Getenv ''CI_COMMIT_MESSAGE'', Print skipped_message])
          else
            (case select_treeish w of
               (Inl e, tr) \<Rightarrow> (Inl e, Getenv ''CI_COMMIT_MESSAGE'' # tr)
             | (Inr treeish, tr) \<Rightarrow>
                 (case subprocess_run w (diff_tree_argv treeish) of
                    None \<Rightarrow> (Inl (Uncaught OSError),
                              Getenv ''CI_COMMIT_MESSAGE'' # tr @ [Run (diff_tree_argv treeish)])
                  | Some diff \<Rightarrow>
                      if stderr diff \<noteq> []
                      then (Inl (SysExit 1),
                            Getenv ''CI_COMMIT_MESSAGE'' # tr @
                              [Run (diff_tree_argv treeish), Print (error_message (stderr diff))])
                      else if \<not> encodable enc w treeish
                      then (Inl (Uncaught UnicodeEncodeError),
                            Getenv ''CI_COMMIT_MESSAGE'' # tr @ [Run (diff_tree_argv treeish)])
                      else if \<not> re_search changelog_re (stdout diff)
                      then (Inl (SysExit 1),
                            Getenv ''CI_COMMIT_MESSAGE'' # tr @
                              [Run (diff_tree_argv treeish),
                               Print (files_message treeish (stdout diff)),
                               Print please_update_message])
                      else (Inr (),
                            Getenv ''CI_COMMIT_MESSAGE'' # tr @
                              [Run (diff_tree_argv treeish),
                               Print (files_message treeish (stdout diff)),
                               Print updated_message]))))"
  unfolding main_def
  by (simp add: os_environ_def run_subprocess_def print_def sys_exit_def io_bind_def io_return_def
      encodable_skipped_message encodable_updated_message encodable_please_update_message
      encodable_error_message encodable_files_message
      split: option.split prod.split sum.split)

lemma printed_append: "printed (xs @ ys) = printed xs @ printed ys"
  by (induction xs rule: printed.induct) simp_all

lemma commands_append: "commands (xs @ ys) = commands xs @ commands ys"
  by (induction xs rule: commands.induct) simp_all

lemma Run_in_commands: "Run argv \<in> set tr \<longleftrightarrow> argv \<in> set (commands tr)"
  by (induction tr rule: commands.induct) auto


lemma select_treeish_no_Run: "Run argv \<notin> set (snd (select_treeish w))"
  by (simp add: Run_in_commands select_treeish_quiet)

lemma reaches_query:
  assumes "Run argv \<in> set (snd (main enc w))"
  obtains message treeish tr where
    "environ w ''CI_COMMIT_MESSAGE'' = Some message" "\<not> re_search skip_re message"
    "select_treeish w = (Inr treeish, tr)" "argv = diff_tree_argv treeish"
proof (cases "environ w ''CI_COMMIT_MESSAGE''")
  case None
  then show ?thesis using assms by (simp add: main_eq)
next
  case (Some message)
  show ?thesis
  proof (cases "re_search skip_re message")
    case True
    then show ?thesis using assms Some by (simp add: main_eq)
  next
    case False
    obtain r tr where sel: "select_treeish w = (r, tr)" by (cases "select_treeish w")
    have quiet: "Run argv \<notin> set tr" using select_treeish_no_Run [of argv w] sel by simp
    show ?thesis
    proof (cases r)
      case (Inl e)
      then show ?thesis using assms Some False sel quiet by (simp add: main_eq)
    next
      case (Inr treeish)
      then have "argv = diff_tree_argv treeish"
        using assms Some False sel quiet
        by (auto simp: main_eq split: option.splits if_splits)
      then show ?thesis using that Some False sel Inr by blast
    qed
  qed
qed

lemma main_after_query:
  assumes "environ w ''CI_COMMIT_MESSAGE'' = Some message" "\<not> re_search skip_re message"
    and "select_treeish w = (Inr treeish, tr)"
    and "subprocess_run w (diff_tree_argv treeish) = Some diff"
  shows "main enc w =
     (if stderr diff \<noteq> []
      then (Inl (SysExit 1),
            Getenv ''CI_COMMIT_MESSAGE'' # tr @
              [Run (diff_tree_argv treeish), Print (error_message (stderr diff))])
      else if \<not> encodable enc w treeish
      then (Inl (Uncaught UnicodeEncodeError),
            Getenv ''CI_COMMIT_MESSAGE'' # tr @ [Run (diff_tree_argv treeish)])
      else if \<not> re_search changelog_re (stdout diff)
      then (Inl (SysExit 1),
            Getenv ''CI_COMMIT_MESSAGE'' # tr @
              [Run (diff_tree_argv treeish), Print (files_message treeish (stdout diff)),
               Print please_update_message])
      else (Inr (),
            Getenv ''CI_COMMIT_MESSAGE'' # tr @
              [Run (diff_tree_argv treeish), Print (files_message treeish (stdout diff)),
               Print updated_message]))"
  using assms by (simp add: main_eq)

lemma printed_select_treeish:
  "select_treeish w = (r, tr) \<Longrightarrow> printed tr = []"
  using select_treeish_quiet [of w] by simp

lemma commands_select_treeish:
  "select_treeish w = (r, tr) \<Longrightarrow> commands tr = []"
  using select_treeish_quiet [of w] by simp

lemma main_skipped:
  assumes "environ w ''CI_COMMIT_MESSAGE'' = Some message" "re_search skip_re message"
  shows "main enc w = (Inl (SysExit 0), [Getenv ''CI_COMMIT_MESSAGE'', Print skipped_message])"
  using assms by (simp add: main_eq)

lemma commands_main:
  assumes "environ w ''CI_COMMIT_MESSAGE'' = Some message" "\<not> re_search skip_re message"
    and "select_treeish w = (Inr treeish, tr)"
  shows "commands (snd (main enc w)) = [diff_tree_argv treeish]"
  using assms commands_select_treeish [OF assms(3)]
  by (simp add: main_eq commands_append split: option.split)

lemma lit_error_prefix: "lit ''An error occured: b'' = lit ''An error occured: '' @ [98]"
  by (simp add: lit_def)

lemma bytes_repr_bad_range:
  "bytes_repr ''fatal: bad range'' = [98, 39] @ lit ''fatal: bad range'' @ [39]"
  by code_simp

lemma select_treeish_cong:
  assumes "\<forall>name\<in>set ci_variables. environ w name = environ w' name"
  shows "select_treeish w = select_treeish w'"
proof -
  have e: "environ w ''CI_PIPELINE_SOURCE'' = environ w' ''CI_PIPELINE_SOURCE''"
    "environ w ''CI_COMMIT_REF_NAME'' = environ w' ''CI_COMMIT_REF_NAME''"
    "environ w ''CI_COMMIT_BEFORE_SHA'' = environ w' ''CI_COMMIT_BEFORE_SHA''"
    "environ w ''CI_MERGE_REQUEST_DIFF_BASE_SHA'' = environ w' ''CI_MERGE_REQUEST_DIFF_BASE_SHA''"
    using assms by (simp_all add: ci_variables_def)
  show ?thesis unfolding select_treeish_eq e by (rule refl)
qed

section \<open>A bytes literal denotes the octets it was made from\<close>

lemma hexvalue_hexdigit: "d < 16 \<Longrightarrow> hexvalue (hexdigit d) = d"
  by (simp add: hexvalue_def hexdigit_def)

lemma unrepr_body_repr_byte:
  assumes "quote = 34 \<or> quote = 39"
  shows "unrepr_body quote (repr_byte quote b @ rest) = map_option ((#) b) (unrepr_body quote rest)"
proof -
  define c :: nat where "c = of_char b"
  have c: "c < 256" "char_of c = b" using of_char_less_256 [of b] by (simp_all add: c_def)
  have hex: "16 * hexvalue (hexdigit (c div 16)) + hexvalue (hexdigit (c mod 16)) = c"
  proof -
    have "c div 16 < 16" "c mod 16 < 16" using c(1) by simp_all
    then show ?thesis by (simp add: hexvalue_hexdigit)
  qed
  consider "c = quote \<or> c = 92" | "c = 9" | "c = 10" | "c = 13"
    | "c \<noteq> quote" "c \<noteq> 92" "c \<noteq> 9" "c \<noteq> 10" "c \<noteq> 13" "c < 32 \<or> 127 \<le> c"
    | "c \<noteq> quote" "c \<noteq> 92" "32 \<le> c" "c < 127"
    by linarith
  then show ?thesis
  proof cases
    case 1
    then have "repr_byte quote b = [92, c]" by (auto simp: repr_byte_def c_def Let_def)
    then show ?thesis using 1 assms c(2) by auto
  next
    case 2
    then have "(of_char b :: nat) = of_char (CHR 0x09)" by (simp add: c_def)
    then have b: "b = CHR 0x09" by (simp only: of_char_eq_iff)
    have "repr_byte quote b = [92, 116]"
      using assms 2 by (auto simp: repr_byte_def c_def)
    then show ?thesis using assms b by auto
  next
    case 3
    then have "(of_char b :: nat) = of_char (CHR 0x0A)" by (simp add: c_def)
    then have b: "b = CHR 0x0A" by (simp only: of_char_eq_iff)
    have "repr_byte quote b = [92, 110]"
      using assms 3 by (auto simp: repr_byte_def c_def)
    then show ?thesis using assms b by auto
  next
    case 4
    then have "(of_char b :: nat) = of_char (CHR 0x0D)" by (simp add: c_def)
    then have b: "b = CHR 0x0D" by (simp only: of_char_eq_iff)
    have "repr_byte quote b = [92, 114]"
      using assms 4 by (auto simp: repr_byte_def c_def)
    then show ?thesis using assms b by auto
  next
    case 5
    then have "repr_byte quote b = [92, 120, hexdigit (c div 16), hexdigit (c mod 16)]"
      by (auto simp: repr_byte_def c_def Let_def)
    then show ?thesis using assms hex c(2) by auto
  next
    case 6
    then have "repr_byte quote b = [c]" by (auto simp: repr_byte_def c_def Let_def)
    then show ?thesis using 6 c(2) by auto
  qed
qed

lemma unrepr_body_repr:
  assumes "quote = 34 \<or> quote = 39"
  shows "unrepr_body quote (concat (map (repr_byte quote) bs) @ [quote]) = Some bs"
proof (induction bs)
  case Nil
  show ?case by simp
next
  case (Cons b bs)
  have "unrepr_body quote (concat (map (repr_byte quote) (b # bs)) @ [quote]) =
          unrepr_body quote (repr_byte quote b @ (concat (map (repr_byte quote) bs) @ [quote]))"
    by simp
  also have "\<dots> = map_option ((#) b)
                     (unrepr_body quote (concat (map (repr_byte quote) bs) @ [quote]))"
    using assms by (rule unrepr_body_repr_byte)
  also have "\<dots> = Some (b # bs)" using Cons.IH by simp
  finally show ?case .
qed

lemma bytes_unrepr_repr: "bytes_unrepr (bytes_repr bs) = Some bs"
proof (cases "CHR 0x27 \<in> set bs \<and> CHR 0x22 \<notin> set bs")
  case True
  then have "bytes_repr bs = 98 # 34 # (concat (map (repr_byte 34) bs) @ [34])"
    by (simp add: bytes_repr_def)
  then show ?thesis using unrepr_body_repr [of 34 bs] by (simp add: bytes_unrepr_def)
next
  case False
  then have "bytes_repr bs = 98 # 39 # (concat (map (repr_byte 39) bs) @ [39])"
    by (auto simp: bytes_repr_def)
  then show ?thesis using unrepr_body_repr [of 39 bs] by (simp add: bytes_unrepr_def)
qed

section \<open>The concrete runs\<close>

lemma environ_world_of:
  "environ (world_of vars diff) = map_of (map (\<lambda>(name, v). (name, lit v)) vars)"
  by (simp add: world_of_def)

lemma subprocess_run_world_of: "subprocess_run (world_of vars diff) argv = Some diff"
  by (simp add: world_of_def)

lemma lit_append: "lit a @ lit b = lit (a @ b)"
  by (simp add: lit_def)

lemma encodable_sample_ranges:
  "encodable enc w (lit ''1f0c3e7..'')"
  "encodable enc w (lit ''9a8b7c6..'')"
  "encodable enc w (lit ''main..'')"
  by (simp_all add: encodable_def lit_def)

lemma fix_bug_no_marker: "\<not> re_search skip_re (lit ''fix bug'')"
  by code_simp

lemma changelog_in_diff_changelog: "re_search changelog_re (stdout diff_changelog)"
  by code_simp



lemma select_treeish_push_to_main:
  "select_treeish (world_of (push_to_main message @ extra) diff) =
     (Inr (lit ''1f0c3e7..''),
      [Getenv ''CI_PIPELINE_SOURCE'', Getenv ''CI_COMMIT_REF_NAME'',
       Getenv ''CI_COMMIT_BEFORE_SHA'', Getenv ''CI_PIPELINE_SOURCE''])"
  by (simp add: select_treeish_eq environ_world_of push_to_main_def lit_append)

lemma select_treeish_merge_request:
  "select_treeish (world_of (merge_request message) diff) =
     (Inr (lit ''9a8b7c6..''),
      [Getenv ''CI_PIPELINE_SOURCE'', Getenv ''CI_PIPELINE_SOURCE'',
       Getenv ''CI_MERGE_REQUEST_DIFF_BASE_SHA''])"
  by (simp add: select_treeish_eq environ_world_of merge_request_def lit_append
      push_not_merge_request [symmetric])

lemma schedule_not_push: "lit ''schedule'' \<noteq> lit ''push''"
  by (simp add: lit_def)

lemma schedule_not_merge_request: "lit ''schedule'' \<noteq> lit ''merge_request_event''"
  by (simp add: lit_def)

lemma select_treeish_scheduled:
  "select_treeish (world_of (scheduled message) diff) =
     (Inr (lit ''main..''), [Getenv ''CI_PIPELINE_SOURCE'', Getenv ''CI_PIPELINE_SOURCE''])"
  by (simp add: select_treeish_eq environ_world_of scheduled_def schedule_not_push
      schedule_not_merge_request)

lemma message_push_to_main:
  "environ (world_of (push_to_main message @ extra) diff) ''CI_COMMIT_MESSAGE'' = Some (lit message)"
  by (simp add: environ_world_of push_to_main_def)

lemma message_merge_request:
  "environ (world_of (merge_request message) diff) ''CI_COMMIT_MESSAGE'' = Some (lit message)"
  by (simp add: environ_world_of merge_request_def)

lemma message_scheduled:
  "environ (world_of (scheduled message) diff) ''CI_COMMIT_MESSAGE'' = Some (lit message)"
  by (simp add: environ_world_of scheduled_def)

lemma main_scenario_A:
  "main sample_encoder scenario_A =
     (Inr (),
      [Getenv ''CI_COMMIT_MESSAGE'', Getenv ''CI_PIPELINE_SOURCE'', Getenv ''CI_COMMIT_REF_NAME'',
       Getenv ''CI_COMMIT_BEFORE_SHA'', Getenv ''CI_PIPELINE_SOURCE'',
       Run (diff_tree_argv (lit ''1f0c3e7..'')),
       Print (files_message (lit ''1f0c3e7..'') (stdout diff_changelog)),
       Print updated_message])"
  unfolding scenario_A_def
  using main_after_query [OF message_push_to_main [of "''fix bug''" "[]" diff_changelog]
      fix_bug_no_marker select_treeish_push_to_main subprocess_run_world_of]
    changelog_in_diff_changelog
  by (simp add: diff_changelog_def encodable_sample_ranges)




lemma main_scenario_D:
  "main sample_encoder scenario_D =
     (Inl (SysExit 1),
      [Getenv ''CI_COMMIT_MESSAGE'', Getenv ''CI_PIPELINE_SOURCE'', Getenv ''CI_PIPELINE_SOURCE'',
       Getenv ''CI_MERGE_REQUEST_DIFF_BASE_SHA'',
       Run (diff_tree_argv (lit ''9a8b7c6..'')),
       Print (error_message (stderr diff_bad_range))])"
  unfolding scenario_D_def
  using main_after_query [OF message_merge_request [of "''fix bug''" diff_bad_range]
      fix_bug_no_marker select_treeish_merge_request subprocess_run_world_of]
  by (simp add: diff_bad_range_def encodable_sample_ranges)

lemma main_bad_revision_run:
  "main sample_encoder bad_revision_run =
     (Inl (SysExit 1),
      [Getenv ''CI_COMMIT_MESSAGE'', Getenv ''CI_PIPELINE_SOURCE'', Getenv ''CI_PIPELINE_SOURCE'',
       Run (diff_tree_argv (lit ''main..'')),
       Print (error_message (stderr diff_bad_revision))])"
  unfolding bad_revision_run_def
  using main_after_query [OF message_scheduled [of "''fix bug''" diff_bad_revision]
      fix_bug_no_marker select_treeish_scheduled subprocess_run_world_of]
  by (simp add: diff_bad_revision_def encodable_sample_ranges)



lemma message_scenario_C:
  "environ scenario_C ''CI_COMMIT_MESSAGE'' = Some (lit ''fix bug [skip-changelog]'')"
  by (simp add: scenario_C_def environ_world_of)

lemma marker_scenario_C: "re_search skip_re (lit ''fix bug [skip-changelog]'')"
  by code_simp








lemma changelog_in_diff_status_first: "re_search changelog_re (stdout diff_status_first)"
  by code_simp

section \<open>The claims\<close>










text \<open>
  Claim C4. In a run that reaches the selection of the range (the commit message is set
  and carries no skip marker), the range is the before-SHA followed by two dots for a push
  to main, the diff base SHA of the merge request followed by two dots for a merge-request
  event, and \<^verbatim>\<open>main..\<close> for every other pipeline source and ref name; it is the range
  of the one command the run spawns.
\<close>

theorem treeish_selection:
  assumes "environ w ''CI_COMMIT_MESSAGE'' = Some message" and "\<not> re_search skip_re message"
  shows
    "(environ w ''CI_PIPELINE_SOURCE'' = Some (lit ''push'') \<and>
      environ w ''CI_COMMIT_REF_NAME'' = Some (lit ''main'') \<and>
      environ w ''CI_COMMIT_BEFORE_SHA'' = Some before_sha \<longrightarrow>
        fst (select_treeish w) = Inr (before_sha @ lit ''..'') \<and>
        commands (snd (main enc w)) = [diff_tree_argv (before_sha @ lit ''..'')]) \<and>
     (environ w ''CI_PIPELINE_SOURCE'' = Some (lit ''merge_request_event'') \<and>
      environ w ''CI_MERGE_REQUEST_DIFF_BASE_SHA'' = Some base_sha \<longrightarrow>
        fst (select_treeish w) = Inr (base_sha @ lit ''..'') \<and>
        commands (snd (main enc w)) = [diff_tree_argv (base_sha @ lit ''..'')]) \<and>
     (environ w ''CI_PIPELINE_SOURCE'' = Some source \<and>
      source \<noteq> lit ''merge_request_event'' \<and>
      (source = lit ''push'' \<longrightarrow>
         (\<exists>ref_name. environ w ''CI_COMMIT_REF_NAME'' = Some ref_name \<and>
                     ref_name \<noteq> lit ''main'')) \<longrightarrow>
        fst (select_treeish w) = Inr (lit ''main..'') \<and>
        commands (snd (main enc w)) = [diff_tree_argv (lit ''main..'')])"
proof (intro conjI impI)
  assume a: "environ w ''CI_PIPELINE_SOURCE'' = Some (lit ''push'') \<and>
      environ w ''CI_COMMIT_REF_NAME'' = Some (lit ''main'') \<and>
      environ w ''CI_COMMIT_BEFORE_SHA'' = Some before_sha"
  then obtain tr where sel: "select_treeish w = (Inr (before_sha @ lit ''..''), tr)"
    by (simp add: select_treeish_eq)
  show "fst (select_treeish w) = Inr (before_sha @ lit ''..'')" using sel by simp
  show "commands (snd (main enc w)) = [diff_tree_argv (before_sha @ lit ''..'')]"
    using commands_main [OF assms sel] .
next
  assume a: "environ w ''CI_PIPELINE_SOURCE'' = Some (lit ''merge_request_event'') \<and>
      environ w ''CI_MERGE_REQUEST_DIFF_BASE_SHA'' = Some base_sha"
  then obtain tr where sel: "select_treeish w = (Inr (base_sha @ lit ''..''), tr)"
    by (simp add: select_treeish_eq push_not_merge_request [symmetric])
  show "fst (select_treeish w) = Inr (base_sha @ lit ''..'')" using sel by simp
  show "commands (snd (main enc w)) = [diff_tree_argv (base_sha @ lit ''..'')]"
    using commands_main [OF assms sel] .
next
  assume a: "environ w ''CI_PIPELINE_SOURCE'' = Some source \<and>
      source \<noteq> lit ''merge_request_event'' \<and>
      (source = lit ''push'' \<longrightarrow>
         (\<exists>ref_name. environ w ''CI_COMMIT_REF_NAME'' = Some ref_name \<and>
                     ref_name \<noteq> lit ''main''))"
  have "\<exists>tr. select_treeish w = (Inr (lit ''main..''), tr)"
  proof (cases "source = lit ''push''")
    case True
    then obtain ref_name where "environ w ''CI_COMMIT_REF_NAME'' = Some ref_name"
      "ref_name \<noteq> lit ''main''" using a by blast
    then show ?thesis using a True by (simp add: select_treeish_eq)
  next
    case False
    then show ?thesis using a by (simp add: select_treeish_eq)
  qed
  then obtain tr where sel: "select_treeish w = (Inr (lit ''main..''), tr)" by blast
  show "fst (select_treeish w) = Inr (lit ''main..'')" using sel by simp
  show "commands (snd (main enc w)) = [diff_tree_argv (lit ''main..'')]"
    using commands_main [OF assms sel] .
qed

text \<open>
  Claim C4, three runs that satisfy it: a push to main, a merge-request event and a
  scheduled pipeline.
\<close>

theorem treeish_selection_witness:
  "commands (snd (main sample_encoder scenario_A)) = [diff_tree_argv (lit ''1f0c3e7'' @ lit ''..'')] \<and>
   commands (snd (main sample_encoder scenario_D)) = [diff_tree_argv (lit ''9a8b7c6'' @ lit ''..'')] \<and>
   commands (snd (main sample_encoder bad_revision_run)) = [diff_tree_argv (lit ''main..'')]"
proof -
  have a: "environ scenario_A ''CI_COMMIT_MESSAGE'' = Some (lit ''fix bug'')"
    "environ scenario_A ''CI_PIPELINE_SOURCE'' = Some (lit ''push'')"
    "environ scenario_A ''CI_COMMIT_REF_NAME'' = Some (lit ''main'')"
    "environ scenario_A ''CI_COMMIT_BEFORE_SHA'' = Some (lit ''1f0c3e7'')"
    by (simp_all add: scenario_A_def environ_world_of push_to_main_def)
  have d: "environ scenario_D ''CI_COMMIT_MESSAGE'' = Some (lit ''fix bug'')"
    "environ scenario_D ''CI_PIPELINE_SOURCE'' = Some (lit ''merge_request_event'')"
    "environ scenario_D ''CI_MERGE_REQUEST_DIFF_BASE_SHA'' = Some (lit ''9a8b7c6'')"
    by (simp_all add: scenario_D_def environ_world_of merge_request_def)
  have r: "environ bad_revision_run ''CI_COMMIT_MESSAGE'' = Some (lit ''fix bug'')"
    "environ bad_revision_run ''CI_PIPELINE_SOURCE'' = Some (lit ''schedule'')"
    by (simp_all add: bad_revision_run_def environ_world_of scheduled_def)
  show ?thesis
    using treeish_selection [OF a(1) fix_bug_no_marker, where enc = sample_encoder and before_sha = "lit ''1f0c3e7''" and base_sha = "[]" and source = "[]"]
      treeish_selection [OF d(1) fix_bug_no_marker, where enc = sample_encoder and before_sha = "[]" and base_sha = "lit ''9a8b7c6''" and source = "[]"]
      treeish_selection [OF r(1) fix_bug_no_marker, where enc = sample_encoder and before_sha = "[]" and base_sha = "[]" and source = "lit ''schedule''"]
      a d r schedule_not_push schedule_not_merge_request
    by simp
qed

text \<open>
  Claim C5. A run that issues the diff query and gets a completed process with a
  non-empty error stream prints exactly one line and ends with exit status 1, whatever
  the standard output of the query holds and whatever the output encoding is. The line is
  \<^verbatim>\<open>An error occured: \<close> followed by the error stream as Python formats a bytes object,
  and that text holds the whole content of the error stream: reading the bytes literal
  back gives the error stream, octet for octet.
\<close>

theorem infra_error:
  assumes "Run argv \<in> set (snd (main enc w))"
    and "subprocess_run w argv = Some diff"
    and "stderr diff \<noteq> []"
  shows "exit_status (fst (main enc w)) = 1 \<and>
         printed (snd (main enc w)) = [lit ''An error occured: '' @ bytes_repr (stderr diff)] \<and>
         bytes_unrepr (bytes_repr (stderr diff)) = Some (stderr diff)"
proof -
  from assms(1) obtain message t tr where *:
    "environ w ''CI_COMMIT_MESSAGE'' = Some message" "\<not> re_search skip_re message"
    "select_treeish w = (Inr t, tr)" "argv = diff_tree_argv t"
    by (rule reaches_query)
  show ?thesis
    using main_after_query [OF *(1,2,3) assms(2) [unfolded *(4)]] assms(3)
      printed_select_treeish [OF *(3)]
    by (simp add: exit_status_def printed_append error_message_def bytes_unrepr_repr)
qed

text \<open>
  Claim C5, a run that satisfies it: the query reports a bad revision although its
  standard output names an added \<^verbatim>\<open>CHANGELOG.md\<close>.
\<close>

theorem infra_error_witness:
  "Run (diff_tree_argv (lit ''main..'')) \<in> set (snd (main sample_encoder bad_revision_run)) \<and>
   subprocess_run bad_revision_run (diff_tree_argv (lit ''main..'')) = Some diff_bad_revision \<and>
   stderr diff_bad_revision \<noteq> [] \<and>
   exit_status (fst (main sample_encoder bad_revision_run)) = 1 \<and>
   printed (snd (main sample_encoder bad_revision_run)) =
     [lit ''An error occured: '' @ bytes_repr (stderr diff_bad_revision)] \<and>
   bytes_unrepr (bytes_repr (stderr diff_bad_revision)) = Some (stderr diff_bad_revision)"
proof -
  have h1: "Run (diff_tree_argv (lit ''main..'')) \<in> set (snd (main sample_encoder bad_revision_run))"
    by (simp add: main_bad_revision_run)
  have h2: "subprocess_run bad_revision_run (diff_tree_argv (lit ''main..'')) =
              Some diff_bad_revision"
    by (simp add: bad_revision_run_def subprocess_run_world_of)
  have h3: "stderr diff_bad_revision \<noteq> []" by (simp add: diff_bad_revision_def)
  from infra_error [OF h1 h2 h3] h1 h2 h3 show ?thesis by blast
qed

text \<open>
  Claim C6. When the error stream of the diff query is \<^verbatim>\<open>fatal: bad range\<close>, the run
  ends with exit status 1 and its standard output is the line
  \<^verbatim>\<open>An error occured: b'fatal: bad range'\<close>: the content of the error stream, character
  for character, between the quotes of the bytes literal.
\<close>

theorem bad_range_verbatim:
  assumes "Run argv \<in> set (snd (main enc w))"
    and "subprocess_run w argv = Some diff"
    and "stderr diff = ''fatal: bad range''"
  shows "exit_status (fst (main enc w)) = 1 \<and>
         stdout_text (snd (main enc w)) =
           lit ''An error occured: b'' @ [39] @ lit ''fatal: bad range'' @ [39, 10]"
proof -
  from assms(1) obtain message t tr where *:
    "environ w ''CI_COMMIT_MESSAGE'' = Some message" "\<not> re_search skip_re message"
    "select_treeish w = (Inr t, tr)" "argv = diff_tree_argv t"
    by (rule reaches_query)
  have "main enc w = (Inl (SysExit 1),
      Getenv ''CI_COMMIT_MESSAGE'' # tr @
        [Run (diff_tree_argv t), Print (error_message ''fatal: bad range'')])"
    using main_after_query [OF *(1,2,3) assms(2) [unfolded *(4)]] assms(3) by simp
  then show ?thesis
    using printed_select_treeish [OF *(3)]
    by (simp add: exit_status_def printed_append stdout_text_def error_message_def
        bytes_repr_bad_range lit_error_prefix)
qed

text \<open>
  Claim C6, a run that satisfies it: scenario D of the specification.
\<close>

theorem bad_range_verbatim_witness:
  "Run (diff_tree_argv (lit ''9a8b7c6..'')) \<in> set (snd (main sample_encoder scenario_D)) \<and>
   subprocess_run scenario_D (diff_tree_argv (lit ''9a8b7c6..'')) = Some diff_bad_range \<and>
   stderr diff_bad_range = ''fatal: bad range'' \<and>
   exit_status (fst (main sample_encoder scenario_D)) = 1 \<and>
   stdout_text (snd (main sample_encoder scenario_D)) =
     lit ''An error occured: b'' @ [39] @ lit ''fatal: bad range'' @ [39, 10]"
proof -
  have h1: "Run (diff_tree_argv (lit ''9a8b7c6..'')) \<in> set (snd (main sample_encoder scenario_D))"
    by (simp add: main_scenario_D)
  have h2: "subprocess_run scenario_D (diff_tree_argv (lit ''9a8b7c6..'')) = Some diff_bad_range"
    by (simp add: scenario_D_def subprocess_run_world_of)
  have h3: "stderr diff_bad_range = ''fatal: bad range''" by (simp add: diff_bad_range_def)
  from bad_range_verbatim [OF h1 h2 h3] h1 h2 h3 show ?thesis by blast
qed

text \<open>
  Claim C7, as the script has it. A run ends with an uncaught \<^verbatim>\<open>KeyError\<close> for a
  variable exactly when it reads that variable and the variable is not set: the commit
  message in every run; the pipeline source in every run that is not skipped; the ref name
  when the pipeline source is \<^verbatim>\<open>push\<close>; the before-SHA when the pipeline source is
  \<^verbatim>\<open>push\<close> and the ref name is \<^verbatim>\<open>main\<close>; the diff base SHA of the merge request
  when the pipeline source is \<^verbatim>\<open>merge_request_event\<close>. No value is substituted for a
  variable that is read and not set, and the fault is immediate: the read of the missing
  variable is the last thing the run does, no command has been spawned and nothing has
  been printed.
\<close>

theorem unset_variable_fault:
  "(fst (main enc w) = Inl (Uncaught (KeyError name)) \<longleftrightarrow>
      (name = ''CI_COMMIT_MESSAGE'' \<and> environ w ''CI_COMMIT_MESSAGE'' = None) \<or>
      (\<exists>message. environ w ''CI_COMMIT_MESSAGE'' = Some message \<and>
         \<not> re_search skip_re message \<and>
         ((name = ''CI_PIPELINE_SOURCE'' \<and> environ w ''CI_PIPELINE_SOURCE'' = None) \<or>
          (name = ''CI_COMMIT_REF_NAME'' \<and>
           environ w ''CI_PIPELINE_SOURCE'' = Some (lit ''push'') \<and>
           environ w ''CI_COMMIT_REF_NAME'' = None) \<or>
          (name = ''CI_COMMIT_BEFORE_SHA'' \<and>
           environ w ''CI_PIPELINE_SOURCE'' = Some (lit ''push'') \<and>
           environ w ''CI_COMMIT_REF_NAME'' = Some (lit ''main'') \<and>
           environ w ''CI_COMMIT_BEFORE_SHA'' = None) \<or>
          (name = ''CI_MERGE_REQUEST_DIFF_BASE_SHA'' \<and>
           environ w ''CI_PIPELINE_SOURCE'' = Some (lit ''merge_request_event'') \<and>
           environ w ''CI_MERGE_REQUEST_DIFF_BASE_SHA'' = None)))) \<and>
   (fst (main enc w) = Inl (Uncaught (KeyError name)) \<longrightarrow>
      commands (snd (main enc w)) = [] \<and> printed (snd (main enc w)) = [] \<and>
      last (snd (main enc w)) = Getenv name)"
proof (cases "environ w ''CI_COMMIT_MESSAGE''")
  case None
  then show ?thesis by (auto simp: main_eq)
next
  case (Some message)
  show ?thesis
  proof (cases "re_search skip_re message")
    case True
    then show ?thesis using Some by (simp add: main_eq)
  next
    case False
    obtain r tr where sel: "select_treeish w = (r, tr)" by (cases "select_treeish w")
    have run: "fst (main enc w) = Inl (Uncaught (KeyError name)) \<longleftrightarrow>
            r = Inl (Uncaught (KeyError name))"
      using Some False sel
      by (auto simp: main_eq split: sum.splits option.splits if_splits)
    have conds: "r = Inl (Uncaught (KeyError name)) \<longleftrightarrow>
        (name = ''CI_PIPELINE_SOURCE'' \<and> environ w ''CI_PIPELINE_SOURCE'' = None) \<or>
        (name = ''CI_COMMIT_REF_NAME'' \<and>
         environ w ''CI_PIPELINE_SOURCE'' = Some (lit ''push'') \<and>
         environ w ''CI_COMMIT_REF_NAME'' = None) \<or>
        (name = ''CI_COMMIT_BEFORE_SHA'' \<and>
         environ w ''CI_PIPELINE_SOURCE'' = Some (lit ''push'') \<and>
         environ w ''CI_COMMIT_REF_NAME'' = Some (lit ''main'') \<and>
         environ w ''CI_COMMIT_BEFORE_SHA'' = None) \<or>
        (name = ''CI_MERGE_REQUEST_DIFF_BASE_SHA'' \<and>
         environ w ''CI_PIPELINE_SOURCE'' = Some (lit ''merge_request_event'') \<and>
         environ w ''CI_MERGE_REQUEST_DIFF_BASE_SHA'' = None)"
      using sel push_not_merge_request unfolding select_treeish_eq
      by (auto split: option.splits if_splits)
    have fast: "commands (snd (main enc w)) = [] \<and> printed (snd (main enc w)) = [] \<and>
        last (snd (main enc w)) = Getenv name" if "r = Inl (Uncaught (KeyError name))"
    proof -
      have "main enc w = (Inl (Uncaught (KeyError name)), Getenv ''CI_COMMIT_MESSAGE'' # tr)"
        using Some False sel that by (simp add: main_eq)
      moreover have "commands tr = []" "printed tr = []"
        using sel commands_select_treeish printed_select_treeish by blast+
      moreover have "tr \<noteq> [] \<and> last tr = Getenv name"
        using sel that unfolding select_treeish_eq
        by (auto split: option.splits if_splits)
      ultimately show ?thesis by simp
    qed
    show ?thesis using run conds fast Some False by simp
  qed
qed

text \<open>
  Claim C7, two runs of a push to main: without the before-SHA the run ends with the
  \<^verbatim>\<open>KeyError\<close> at the read of that variable, before any command or output; without the
  diff base SHA of a merge request, which a push never reads, it does not.
\<close>

theorem unset_variable_fault_witness:
  "environ push_without_before_sha ''CI_COMMIT_BEFORE_SHA'' = None \<and>
   fst (main sample_encoder push_without_before_sha) =
     Inl (Uncaught (KeyError ''CI_COMMIT_BEFORE_SHA'')) \<and>
   commands (snd (main sample_encoder push_without_before_sha)) = [] \<and>
   printed (snd (main sample_encoder push_without_before_sha)) = [] \<and>
   last (snd (main sample_encoder push_without_before_sha)) = Getenv ''CI_COMMIT_BEFORE_SHA'' \<and>
   environ scenario_A ''CI_MERGE_REQUEST_DIFF_BASE_SHA'' = None \<and>
   fst (main sample_encoder scenario_A) \<noteq>
     Inl (Uncaught (KeyError ''CI_MERGE_REQUEST_DIFF_BASE_SHA''))"
proof -
  have p: "environ push_without_before_sha ''CI_COMMIT_MESSAGE'' = Some (lit ''fix bug'')"
    "environ push_without_before_sha ''CI_PIPELINE_SOURCE'' = Some (lit ''push'')"
    "environ push_without_before_sha ''CI_COMMIT_REF_NAME'' = Some (lit ''main'')"
    "environ push_without_before_sha ''CI_COMMIT_BEFORE_SHA'' = None"
    by (simp_all add: push_without_before_sha_def environ_world_of)
  have a: "environ scenario_A ''CI_COMMIT_MESSAGE'' = Some (lit ''fix bug'')"
    "environ scenario_A ''CI_PIPELINE_SOURCE'' = Some (lit ''push'')"
    "environ scenario_A ''CI_MERGE_REQUEST_DIFF_BASE_SHA'' = None"
    by (simp_all add: scenario_A_def environ_world_of push_to_main_def)
  note f = unset_variable_fault [of sample_encoder push_without_before_sha
      "''CI_COMMIT_BEFORE_SHA''"]
  have 1: "fst (main sample_encoder push_without_before_sha) =
             Inl (Uncaught (KeyError ''CI_COMMIT_BEFORE_SHA''))"
    using f p fix_bug_no_marker by simp
  have 2: "commands (snd (main sample_encoder push_without_before_sha)) = [] \<and>
   printed (snd (main sample_encoder push_without_before_sha)) = [] \<and>
   last (snd (main sample_encoder push_without_before_sha)) = Getenv ''CI_COMMIT_BEFORE_SHA''"
    using f 1 by blast
  have 3: "fst (main sample_encoder scenario_A) \<noteq>
             Inl (Uncaught (KeyError ''CI_MERGE_REQUEST_DIFF_BASE_SHA''))"
    using unset_variable_fault [of sample_encoder scenario_A "''CI_MERGE_REQUEST_DIFF_BASE_SHA''"]
      a push_not_merge_request by simp
  from 1 2 3 p(4) a(3) show ?thesis by blast
qed

text \<open>
  Claim C7 as the specification words it fails. With only the commit message set, a
  skipped run ends with exit status 0 although four of the five variables are absent; and
  a push to main whose changelog was updated runs to its end although the diff base SHA of
  a merge request is absent.
\<close>

theorem unset_variables_counterexample:
  "environ scenario_C ''CI_PIPELINE_SOURCE'' = None \<and>
   environ scenario_C ''CI_COMMIT_REF_NAME'' = None \<and>
   environ scenario_C ''CI_COMMIT_BEFORE_SHA'' = None \<and>
   environ scenario_C ''CI_MERGE_REQUEST_DIFF_BASE_SHA'' = None \<and>
   main sample_encoder scenario_C = (Inl (SysExit 0), [Getenv ''CI_COMMIT_MESSAGE'', Print skipped_message]) \<and>
   environ scenario_A ''CI_MERGE_REQUEST_DIFF_BASE_SHA'' = None \<and>
   fst (main sample_encoder scenario_A) = Inr ()"
proof -
  have 1: "environ scenario_C ''CI_PIPELINE_SOURCE'' = None"
    "environ scenario_C ''CI_COMMIT_REF_NAME'' = None"
    "environ scenario_C ''CI_COMMIT_BEFORE_SHA'' = None"
    "environ scenario_C ''CI_MERGE_REQUEST_DIFF_BASE_SHA'' = None"
    by (simp_all add: scenario_C_def environ_world_of)
  have 2: "main sample_encoder scenario_C =
             (Inl (SysExit 0), [Getenv ''CI_COMMIT_MESSAGE'', Print skipped_message])"
    using message_scenario_C marker_scenario_C by (rule main_skipped)
  have 3: "environ scenario_A ''CI_MERGE_REQUEST_DIFF_BASE_SHA'' = None"
    by (simp add: scenario_A_def environ_world_of push_to_main_def)
  have 4: "fst (main sample_encoder scenario_A) = Inr ()" by (simp add: main_scenario_A)
  from 1 2 3 4 show ?thesis by blast
qed



text \<open>
  Claim C9. When the search for the skip marker succeeds on the commit message, the whole
  run is: read \<^verbatim>\<open>CI_COMMIT_MESSAGE\<close>, print the confirmation, exit with status 0. No
  other variable is read and no command is spawned, whatever else the world holds.
\<close>

theorem skip_reads_only_message:
  assumes "environ w ''CI_COMMIT_MESSAGE'' = Some message" and "re_search skip_re message"
  shows "main enc w = (Inl (SysExit 0), [Getenv ''CI_COMMIT_MESSAGE'', Print skipped_message]) \<and>
         exit_status (fst (main enc w)) = 0"
  using main_skipped [OF assms] by (simp add: exit_status_def)

text \<open>
  Claim C9, a run that satisfies it: scenario C of the specification, in an environment
  that sets the commit message only.
\<close>

theorem skip_reads_only_message_witness:
  "environ scenario_C ''CI_COMMIT_MESSAGE'' = Some (lit ''fix bug [skip-changelog]'') \<and>
   re_search skip_re (lit ''fix bug [skip-changelog]'') \<and>
   environ scenario_C ''CI_PIPELINE_SOURCE'' = None \<and>
   main sample_encoder scenario_C = (Inl (SysExit 0), [Getenv ''CI_COMMIT_MESSAGE'', Print skipped_message]) \<and>
   exit_status (fst (main sample_encoder scenario_C)) = 0"
proof -
  have 1: "environ scenario_C ''CI_PIPELINE_SOURCE'' = None"
    by (simp add: scenario_C_def environ_world_of)
  from skip_reads_only_message [OF message_scenario_C marker_scenario_C]
    message_scenario_C marker_scenario_C 1
  show ?thesis by blast
qed

text \<open>
  Claim C10. Two worlds that agree on the five CI variables, on the output encoding that
  the interpreter chooses, and on the answer to each diff query that the run issues, give
  the same run: the same trace, hence the same output, and the same exit. The encoding is
  a function of the environment, so two worlds with identical environments agree on it and
  on the five variables. The worlds may differ in everything else.
\<close>

theorem deterministic:
  assumes "\<forall>name\<in>set ci_variables. environ w name = environ w' name"
    and "enc (environ w) = enc (environ w')"
    and "\<forall>argv. Run argv \<in> set (snd (main enc w)) \<longrightarrow>
                  subprocess_run w argv = subprocess_run w' argv"
  shows "main enc w = main enc w'"
proof -
  have m: "environ w ''CI_COMMIT_MESSAGE'' = environ w' ''CI_COMMIT_MESSAGE''"
    using assms(1) by (simp add: ci_variables_def)
  have sel: "select_treeish w = select_treeish w'"
    using assms(1) by (rule select_treeish_cong)
  have enc: "encodable enc w s = encodable enc w' s" for s
    using assms(2) by (simp add: encodable_def)
  show ?thesis
  proof (cases "environ w ''CI_COMMIT_MESSAGE''")
    case None
    then show ?thesis using m by (simp add: main_eq)
  next
    case (Some message)
    show ?thesis
    proof (cases "re_search skip_re message")
      case True
      then show ?thesis using Some m by (simp add: main_eq)
    next
      case False
      obtain r tr where r: "select_treeish w = (r, tr)" by (cases "select_treeish w")
      show ?thesis
      proof (cases r)
        case (Inl e)
        then show ?thesis using Some False m r sel by (simp add: main_eq)
      next
        case (Inr treeish)
        have "Run (diff_tree_argv treeish) \<in> set (snd (main enc w))"
          using Some False r Inr by (simp add: main_eq split: option.split)
        then have sub: "subprocess_run w' (diff_tree_argv treeish) =
                        subprocess_run w (diff_tree_argv treeish)"
          using assms(3) by simp
        have m': "environ w' ''CI_COMMIT_MESSAGE'' = Some message" using Some m by simp
        have r': "select_treeish w' = (Inr treeish, tr)" using r sel Inr by simp
        have r'': "select_treeish w = (Inr treeish, tr)" using r Inr by simp
        show ?thesis
          by (simp add: main_eq Some m' False r' r'' sub enc [of treeish, symmetric]
              split: option.split)
      qed
    qed
  qed
qed

text \<open>
  Claim C10, two worlds that satisfy it: they differ in \<^verbatim>\<open>HOME\<close> and
  \<^verbatim>\<open>CI_JOB_ID\<close>, which are neither read by the script nor consulted for the encoding,
  and run alike.
\<close>

theorem deterministic_witness:
  "environ scenario_A ''CI_COMMIT_MESSAGE'' = environ scenario_A_elsewhere ''CI_COMMIT_MESSAGE'' \<and>
   environ scenario_A ''CI_PIPELINE_SOURCE'' = environ scenario_A_elsewhere ''CI_PIPELINE_SOURCE'' \<and>
   environ scenario_A ''CI_COMMIT_REF_NAME'' = environ scenario_A_elsewhere ''CI_COMMIT_REF_NAME'' \<and>
   environ scenario_A ''CI_COMMIT_BEFORE_SHA'' =
     environ scenario_A_elsewhere ''CI_COMMIT_BEFORE_SHA'' \<and>
   environ scenario_A ''CI_MERGE_REQUEST_DIFF_BASE_SHA'' =
     environ scenario_A_elsewhere ''CI_MERGE_REQUEST_DIFF_BASE_SHA'' \<and>
   sample_encoder (environ scenario_A) = sample_encoder (environ scenario_A_elsewhere) \<and>
   commands (snd (main sample_encoder scenario_A)) = [diff_tree_argv (lit ''1f0c3e7..'')] \<and>
   subprocess_run scenario_A (diff_tree_argv (lit ''1f0c3e7..'')) =
     subprocess_run scenario_A_elsewhere (diff_tree_argv (lit ''1f0c3e7..'')) \<and>
   environ scenario_A ''CI_JOB_ID'' \<noteq> environ scenario_A_elsewhere ''CI_JOB_ID'' \<and>
   main sample_encoder scenario_A = main sample_encoder scenario_A_elsewhere"
proof -
  have e: "environ scenario_A ''CI_COMMIT_MESSAGE'' =
             environ scenario_A_elsewhere ''CI_COMMIT_MESSAGE''"
    "environ scenario_A ''CI_PIPELINE_SOURCE'' = environ scenario_A_elsewhere ''CI_PIPELINE_SOURCE''"
    "environ scenario_A ''CI_COMMIT_REF_NAME'' = environ scenario_A_elsewhere ''CI_COMMIT_REF_NAME''"
    "environ scenario_A ''CI_COMMIT_BEFORE_SHA'' =
       environ scenario_A_elsewhere ''CI_COMMIT_BEFORE_SHA''"
    "environ scenario_A ''CI_MERGE_REQUEST_DIFF_BASE_SHA'' =
       environ scenario_A_elsewhere ''CI_MERGE_REQUEST_DIFF_BASE_SHA''"
    by (simp_all add: scenario_A_def scenario_A_elsewhere_def environ_world_of push_to_main_def)
  have h1: "\<forall>name\<in>set ci_variables. environ scenario_A name = environ scenario_A_elsewhere name"
    using e by (simp add: ci_variables_def)
  have h2: "sample_encoder (environ scenario_A) = sample_encoder (environ scenario_A_elsewhere)"
    by (rule ext)
      (simp add: sample_encoder_def scenario_A_def scenario_A_elsewhere_def environ_world_of
        push_to_main_def)
  have h3: "\<forall>argv. Run argv \<in> set (snd (main sample_encoder scenario_A)) \<longrightarrow>
               subprocess_run scenario_A argv = subprocess_run scenario_A_elsewhere argv"
    by (simp add: scenario_A_def scenario_A_elsewhere_def subprocess_run_world_of)
  have 4: "commands (snd (main sample_encoder scenario_A)) = [diff_tree_argv (lit ''1f0c3e7..'')]"
    by (simp add: main_scenario_A)
  have 5: "subprocess_run scenario_A (diff_tree_argv (lit ''1f0c3e7..'')) =
     subprocess_run scenario_A_elsewhere (diff_tree_argv (lit ''1f0c3e7..''))"
    by (simp add: scenario_A_def scenario_A_elsewhere_def subprocess_run_world_of)
  have 6: "environ scenario_A ''CI_JOB_ID'' \<noteq> environ scenario_A_elsewhere ''CI_JOB_ID''"
    by (simp add: scenario_A_def scenario_A_elsewhere_def environ_world_of push_to_main_def)
  from deterministic [OF h1 h2 h3] e h2 4 5 6 show ?thesis by blast
qed

end
